theory Spec2Isabelle
  imports Complex_Main "HOL-Library.Word"
begin

section \<open>Python values and exceptions\<close>

text \<open>
  The fragment of Python's value universe that the modelled functions inspect with
  \<^verbatim>\<open>isinstance\<close>, \<^verbatim>\<open>==\<close> and \<^verbatim>\<open>in\<close>. An object of any other class is
  \<open>PyObject cls ident\<close>: its class name and its identity.
\<close>

datatype py_value =
    PyNone
  | PyBool bool
  | PyInt int
  | PyFloat real
  | PyStr string
  | PyList "py_value list"
  | PyTuple "py_value list"
  | PyObject string nat

text \<open>\<^verbatim>\<open>class TensorSupplyType(Enum)\<close> of \<^verbatim>\<open>tilelang/utils/tensor.py\<close>.\<close>

datatype TensorSupplyType = Integer | Uniform | Normal | Randn | Zero | One

text \<open>
  What a caller can pass as \<^verbatim>\<open>supply_type\<close>: a member of the enumeration, or
  (Python checks nothing) any other value.
\<close>

datatype supply_arg = Member TensorSupplyType | NonMember py_value

text \<open>
  The exceptions the modelled code raises, each with what it is raised with. The pieces
  of an f-string are kept as a list, the formatted values unformatted. \<open>TorchError\<close>
  is an exception raised inside the tensor library, of whatever class the library gives
  it.
\<close>

datatype exn =
    IndexError string
  | ValueError string
  | AssertionError "py_value list"
  | NotImplementedError supply_arg
  | AttributeError string
  | TypeError string
  | ZeroDivisionError
  | ModuleNotFoundError string
  | RuntimeError string
  | TorchError string

section \<open>The kernel launch scope (\<^verbatim>\<open>tilelang/language/kernel.py\<close>)\<close>

subsection \<open>\<^verbatim>\<open>FrameStack\<close>\<close>

text \<open>
  A \<^verbatim>\<open>deque\<close> used from its right end only: \<^verbatim>\<open>append\<close> adds at the end of the
  list, \<^verbatim>\<open>[-1]\<close> reads the last element and \<^verbatim>\<open>pop()\<close> removes it.
\<close>

record 'a FrameStack =
  stack :: "'a list"

definition FrameStack_init :: "'a FrameStack" where
  "FrameStack_init = \<lparr>stack = []\<rparr>"

definition FrameStack_push :: "'a FrameStack \<Rightarrow> 'a \<Rightarrow> 'a FrameStack" where
  "FrameStack_push self item = self\<lparr>stack := stack self @ [item]\<rparr>"

definition FrameStack_pop :: "'a FrameStack \<Rightarrow> exn + ('a \<times> 'a FrameStack)" where
  "FrameStack_pop self =
     (if stack self \<noteq> [] then Inr (last (stack self), self\<lparr>stack := butlast (stack self)\<rparr>)
      else Inl (IndexError ''FrameStack is empty''))"

definition FrameStack_top :: "'a FrameStack \<Rightarrow> exn + 'a" where
  "FrameStack_top self =
     (if stack self \<noteq> [] then Inr (last (stack self))
      else Inl (IndexError ''FrameStack is empty''))"

definition FrameStack_len :: "'a FrameStack \<Rightarrow> nat" where
  "FrameStack_len self = length (stack self)"

definition FrameStack_bool :: "'a FrameStack \<Rightarrow> bool" where
  "FrameStack_bool self = (stack self \<noteq> [])"

subsection \<open>\<^verbatim>\<open>KernelLaunchFrame\<close>\<close>

text \<open>
  A \<^verbatim>\<open>tir.Var\<close> is opaque here and stands for its name. A launch frame object has an
  identity (Python's \<^verbatim>\<open>is\<close> compares identities) and the list \<^verbatim>\<open>frames\<close> that the
  compiler's binding machinery filled in.
\<close>

datatype Var = Var string

record IterVar =
  var :: Var
  dom_extent :: int

record LaunchThreadFrame =
  iter_var :: IterVar

record KernelLaunchFrame =
  ident :: nat
  frames :: "LaunchThreadFrame list"

text \<open>
  The process state the scope touches: the module-level \<^verbatim>\<open>_kernel_launch_frame_stack\<close>,
  which holds references to launch frames, and the base class \<^verbatim>\<open>TIRFrame\<close>, which
  belongs to the compiler. The calls that return from the base class
  (\<^verbatim>\<open>super().__enter__()\<close>, \<^verbatim>\<open>super().__exit__(...)\<close>) are recorded. Whether
  \<^verbatim>\<open>super().__exit__(...)\<close> raises is the compiler's decision: \<open>super_exit\<close> gives,
  for the frame that exits and the calls recorded so far, the exception it raises, or
  \<open>None\<close> when it returns.
\<close>

datatype tir_call = TIRFrame_enter nat | TIRFrame_exit nat

record world =
  kernel_launch_frame_stack :: "nat FrameStack"
  tir_calls :: "tir_call list"
  super_exit :: "nat \<Rightarrow> tir_call list \<Rightarrow> exn option"

datatype enter_value = OneVar Var | VarList "Var list"

text \<open>Python's \<^verbatim>\<open>xs[0:-4]\<close>: everything but the last four, nothing when there are at most four.\<close>

definition slice_0_neg4 :: "'a list \<Rightarrow> 'a list" where
  "slice_0_neg4 xs = take (length xs - 4) xs"

definition KernelLaunchFrame_enter :: "KernelLaunchFrame \<Rightarrow> world \<Rightarrow> enter_value \<times> world" where
  "KernelLaunchFrame_enter self w =
     (let w1 = w\<lparr>tir_calls := tir_calls w @ [TIRFrame_enter (ident self)]\<rparr>;
          w2 = w1\<lparr>kernel_launch_frame_stack :=
                    FrameStack_push (kernel_launch_frame_stack w1) (ident self)\<rparr>
      in if length (frames self) = 5
         then (OneVar (var (iter_var (frames self ! 0))), w2)
         else (VarList (map (\<lambda>frame. var (iter_var frame)) (slice_0_neg4 (frames self))), w2))"

text \<open>
  \<^verbatim>\<open>__exit__\<close> asks for the top of the stack, pops it if it is this frame, and then
  calls the base class. A call that raises gives the exception and no state.
\<close>

definition KernelLaunchFrame_exit :: "KernelLaunchFrame \<Rightarrow> world \<Rightarrow> exn + world" where
  "KernelLaunchFrame_exit self w =
     (case FrameStack_top (kernel_launch_frame_stack w) of
        Inl e \<Rightarrow> Inl e
      | Inr t \<Rightarrow>
          (case (if t = ident self
                 then (case FrameStack_pop (kernel_launch_frame_stack w) of
                         Inl e \<Rightarrow> Inl e
                       | Inr (_, s) \<Rightarrow> Inr (w\<lparr>kernel_launch_frame_stack := s\<rparr>))
                 else Inr w) of
             Inl e \<Rightarrow> Inl e
           | Inr w1 \<Rightarrow>
               (case super_exit w1 (ident self) (tir_calls w1) of
                  Some e \<Rightarrow> Inl e
                | None \<Rightarrow> Inr (w1\<lparr>tir_calls := tir_calls w1 @ [TIRFrame_exit (ident self)]\<rparr>))))"

definition KernelLaunchFrame_Current :: "world \<Rightarrow> exn + nat" where
  "KernelLaunchFrame_Current w = FrameStack_top (kernel_launch_frame_stack w)"

text \<open>
  Two base classes. The first returns from every exit. The second refuses an exit out of
  order: it keeps to the frames entered and not yet exited, the most recent one first,
  and raises unless the frame that exits is the first of them.
\<close>

definition exit_returns :: "nat \<Rightarrow> tir_call list \<Rightarrow> exn option" where
  "exit_returns f calls = None"

fun tir_open :: "tir_call list \<Rightarrow> nat list \<Rightarrow> nat list" where
  "tir_open [] opened = opened"
| "tir_open (TIRFrame_enter f # calls) opened = tir_open calls (f # opened)"
| "tir_open (TIRFrame_exit f # calls) opened = tir_open calls (remove1 f opened)"

definition exit_in_order :: "nat \<Rightarrow> tir_call list \<Rightarrow> exn option" where
  "exit_in_order f calls =
     (case tir_open calls [] of
        [] \<Rightarrow> Some (RuntimeError ''no frame to exit'')
      | g # _ \<Rightarrow> if g = f then None else Some (RuntimeError ''frame exited out of order''))"

text \<open>The state of a fresh process: nothing entered. One for each base class.\<close>

definition world_init :: world where
  "world_init =
     \<lparr>kernel_launch_frame_stack = FrameStack_init, tir_calls = [], super_exit = exit_returns\<rparr>"

definition world_in_order :: world where
  "world_in_order = world_init\<lparr>super_exit := exit_in_order\<rparr>"

subsection \<open>Sequences of scope entries and exits\<close>

text \<open>
  A \<^verbatim>\<open>with\<close> statement calls \<^verbatim>\<open>__enter__\<close>, runs its body and calls
  \<^verbatim>\<open>__exit__\<close> on the same object. A run of the program is then a sequence of such
  calls; it stops at the first exception.
\<close>

datatype scope_event = Enter KernelLaunchFrame | Exit KernelLaunchFrame

fun run :: "scope_event list \<Rightarrow> world \<Rightarrow> exn + world" where
  "run [] w = Inr w"
| "run (Enter f # es) w = run es (snd (KernelLaunchFrame_enter f w))"
| "run (Exit f # es) w =
     (case KernelLaunchFrame_exit f w of Inl e \<Rightarrow> Inl e | Inr w' \<Rightarrow> run es w')"

text \<open>
  The specification's side of the LIFO discipline, written from its words and not from
  the code: the scopes that a sequence has entered and not yet exited, the most recent
  one first, starting from the scopes \<open>opened\<close>. The sequence is properly nested when
  every exit is the exit of the most recently entered scope that is still open;
  otherwise the result is \<open>None\<close>.
\<close>

fun open_scopes :: "scope_event list \<Rightarrow> nat list \<Rightarrow> nat list option" where
  "open_scopes [] opened = Some opened"
| "open_scopes (Enter f # es) opened = open_scopes es (ident f # opened)"
| "open_scopes (Exit f # es) opened =
     (case opened of
        [] \<Rightarrow> None
      | g # rest \<Rightarrow> if g = ident f then open_scopes es rest else None)"

text \<open>
  The scopes that a sequence has entered and not yet exited, the most recent one first,
  whatever the order of the exits: an exit takes its scope out of them.
\<close>

fun not_yet_exited :: "scope_event list \<Rightarrow> nat list \<Rightarrow> nat list" where
  "not_yet_exited [] opened = opened"
| "not_yet_exited (Enter f # es) opened = not_yet_exited es (ident f # opened)"
| "not_yet_exited (Exit f # es) opened = not_yet_exited es (remove1 (ident f) opened)"

subsection \<open>\<^verbatim>\<open>Kernel\<close>\<close>

text \<open>
  What \<^verbatim>\<open>Kernel\<close> hands to the foreign function \<^verbatim>\<open>_ffi_api.KernelLaunch\<close>, which
  is outside this repository: the block extents, the normalised \<^verbatim>\<open>threads\<close> and the
  attribute dictionary.
\<close>

record KernelLaunch_call =
  call_blocks :: "py_value list"
  call_threads :: "py_value list"
  call_attrs :: "(string \<times> string) list"

text \<open>\<^verbatim>\<open>isinstance(v, int)\<close>: \<^verbatim>\<open>bool\<close> is a subclass of \<^verbatim>\<open>int\<close>.\<close>

definition isinstance_int :: "py_value \<Rightarrow> bool" where
  "isinstance_int v = (case v of PyInt _ \<Rightarrow> True | PyBool _ \<Rightarrow> True | _ \<Rightarrow> False)"

definition isinstance_list :: "py_value \<Rightarrow> bool" where
  "isinstance_list v = (case v of PyList _ \<Rightarrow> True | _ \<Rightarrow> False)"

definition isinstance_tuple :: "py_value \<Rightarrow> bool" where
  "isinstance_tuple v = (case v of PyTuple _ \<Rightarrow> True | _ \<Rightarrow> False)"

text \<open>\<^verbatim>\<open>[1] * n\<close> is the empty list when \<open>n \<le> 0\<close>, which the truncating subtraction gives.\<close>

definition Kernel :: "py_value list \<Rightarrow> py_value \<Rightarrow> string option \<Rightarrow> exn + KernelLaunch_call" where
  "Kernel blocks threads prelude =
     (case (if isinstance_int threads then Inr [threads, PyInt 1, PyInt 1]
            else case threads of
                PyList xs \<Rightarrow> Inr (xs @ replicate (3 - length xs) (PyInt 1))
              | PyTuple xs \<Rightarrow> Inr (xs @ replicate (3 - length xs) (PyInt 1))
              | _ \<Rightarrow> Inl (ValueError ''threads must be an integer or a list of integers'')) of
        Inl e \<Rightarrow> Inl e
      | Inr threads' \<Rightarrow>
          Inr \<lparr>call_blocks = blocks, call_threads = threads',
               call_attrs = (case prelude of None \<Rightarrow> [] | Some p \<Rightarrow> [(''pragma_import_c'', p)])\<rparr>)"

section \<open>The target resolver (\<^verbatim>\<open>tilelang/utils/target.py\<close>)\<close>

text \<open>
  The two probes call into \<^verbatim>\<open>nvcc.find_cuda_path\<close> and \<^verbatim>\<open>rocm.find_rocm_path\<close>,
  which look at the machine; their outcomes (a path, or the exception raised) are the
  environment of the resolver.
\<close>

record probes =
  find_cuda_path :: "exn + string"
  find_rocm_path :: "exn + string"

definition check_cuda_availability :: "probes \<Rightarrow> bool" where
  "check_cuda_availability env = (case find_cuda_path env of Inr _ \<Rightarrow> True | Inl _ \<Rightarrow> False)"

definition check_hip_availability :: "probes \<Rightarrow> bool" where
  "check_hip_availability env = (case find_rocm_path env of Inr _ \<Rightarrow> True | Inl _ \<Rightarrow> False)"

text \<open>A \<^verbatim>\<open>tvm.target.Target\<close> object is \<open>PyObject ''Target'' i\<close>.\<close>

definition isinstance_Target :: "py_value \<Rightarrow> bool" where
  "isinstance_Target v = (case v of PyObject cls _ \<Rightarrow> cls = ''Target'' | _ \<Rightarrow> False)"

definition determine_target :: "probes \<Rightarrow> py_value \<Rightarrow> exn + py_value" where
  "determine_target env target =
     (if target = PyStr ''auto'' then
        (let is_cuda_available = check_cuda_availability env;
             is_hip_available = check_hip_availability env
         in if is_cuda_available then Inr (PyStr ''cuda'')
            else if is_hip_available then Inr (PyStr ''hip'')
            else Inl (ValueError ''No CUDA or HIP available on this system.''))
      else if isinstance_Target target \<or> target \<in> set [PyStr ''cuda'', PyStr ''hip'']
           then Inr target
           else Inl (AssertionError [PyStr ''Target '', target, PyStr '' is not supported'']))"

section \<open>The tensor supply (\<^verbatim>\<open>tilelang/utils/tensor.py\<close>)\<close>

text \<open>
  The tensor library is not part of this repository. \<^verbatim>\<open>get_tensor\<close> uses nine things
  of it, which are the fields of the record: the lookup of an attribute by name
  (\<^verbatim>\<open>torch.__getattribute__\<close>, which raises for a name the library does not have),
  the element type \<^verbatim>\<open>torch.int8\<close>, the current device, and the six ways in which
  it makes a tensor. Each of them returns a tensor or raises; in a field's arguments the
  shape comes first, then the device and the element type, then the bounds or parameters
  of the distribution (\<^verbatim>\<open>low\<close> and \<^verbatim>\<open>high\<close> come first for \<^verbatim>\<open>randint\<close>).
  \<open>torch_empty_uniform\<close> is \<^verbatim>\<open>torch.empty(...).uniform_(a, b)\<close>,
  \<open>torch_empty_normal\<close> is \<^verbatim>\<open>torch.empty(...).normal_(a, b)\<close> and \<open>torch_randn_to\<close>
  is \<^verbatim>\<open>torch.randn(...).to(dtype)\<close>.
\<close>

record ('dtype, 'tensor) torch =
  torch_getattribute :: "string \<Rightarrow> exn + 'dtype"
  torch_int8 :: 'dtype
  torch_cuda_current_device :: "exn + int"
  torch_ones :: "int list \<Rightarrow> int \<Rightarrow> 'dtype \<Rightarrow> exn + 'tensor"
  torch_zeros :: "int list \<Rightarrow> int \<Rightarrow> 'dtype \<Rightarrow> exn + 'tensor"
  torch_randint :: "int \<Rightarrow> int \<Rightarrow> int list \<Rightarrow> int \<Rightarrow> 'dtype \<Rightarrow> exn + 'tensor"
  torch_empty_uniform :: "int list \<Rightarrow> int \<Rightarrow> 'dtype \<Rightarrow> real \<Rightarrow> real \<Rightarrow> exn + 'tensor"
  torch_empty_normal :: "int list \<Rightarrow> int \<Rightarrow> 'dtype \<Rightarrow> real \<Rightarrow> real \<Rightarrow> exn + 'tensor"
  torch_randn_to :: "int list \<Rightarrow> int \<Rightarrow> 'dtype \<Rightarrow> exn + 'tensor"

text \<open>
  A dimension of a \<^verbatim>\<open>TensorType\<close> is an expression of the compiler: a constant, which
  \<^verbatim>\<open>int\<close> converts, or a symbolic size, on which \<^verbatim>\<open>int\<close> raises.
\<close>

datatype dim = IntImm int | SizeVar string

record TensorType =
  dtype :: string
  shape :: "dim list"

fun map_int :: "dim list \<Rightarrow> exn + int list" where
  "map_int [] = Inr []"
| "map_int (IntImm n # ds) =
     (case map_int ds of Inl e \<Rightarrow> Inl e | Inr ns \<Rightarrow> Inr (n # ns))"
| "map_int (SizeVar x # ds) = Inl (TypeError x)"

text \<open>
  The three lookups come first, in the source's order; the choice of the generator
  follows, and the generator's result or exception is the result.
\<close>

definition get_tensor :: "supply_arg \<Rightarrow> ('dtype, 'tensor) torch \<Rightarrow> TensorType \<Rightarrow> exn + 'tensor" where
  "get_tensor supply_type lib tensor =
     (case torch_getattribute lib (dtype tensor) of
        Inl e \<Rightarrow> Inl e
      | Inr dt \<Rightarrow>
     (case torch_cuda_current_device lib of
        Inl e \<Rightarrow> Inl e
      | Inr device \<Rightarrow>
     (case map_int (shape tensor) of
        Inl e \<Rightarrow> Inl e
      | Inr shp \<Rightarrow>
          if dt = torch_int8 lib \<and> supply_type \<in> set [Member Uniform, Member Normal]
          then torch_ones lib shp device dt
          else if supply_type = Member Integer then torch_randint lib (- 2) 3 shp device dt
          else if supply_type = Member Uniform then torch_empty_uniform lib shp device dt (- 1) 1
          else if supply_type = Member Normal then torch_empty_normal lib shp device dt (- 1) 1
          else if supply_type = Member Randn then torch_randn_to lib shp device dt
          else if supply_type = Member Zero then torch_zeros lib shp device dt
          else if supply_type = Member One then torch_ones lib shp device dt
          else Inl (NotImplementedError supply_type))))"

definition get_tensor_supply ::
  "supply_arg \<Rightarrow> (('dtype, 'tensor) torch \<Rightarrow> TensorType \<Rightarrow> exn + 'tensor)" where
  "get_tensor_supply supply_type = get_tensor supply_type"

subsection \<open>A tensor library\<close>

text \<open>
  A library to run the generator with. Its tensors are described by how they were made.
  It refuses what the tensor library refuses: a shape with no dimension where the
  dimensions are passed one by one (all ways but \<^verbatim>\<open>randint\<close>, which takes the shape
  whole), a negative dimension, \<^verbatim>\<open>randint\<close> bounds that are empty or that the
  element type cannot hold, and \<^verbatim>\<open>uniform_\<close> and \<^verbatim>\<open>normal_\<close> on an element type
  that is not a floating-point type.
\<close>

datatype torch_dtype =
    float16 | bfloat16 | float32 | float64
  | int8 | uint8 | int16 | uint16 | int32 | uint32 | int64 | uint64 | torch_bool

datatype tensor =
    all_ones "int list" int torch_dtype
  | all_zeros "int list" int torch_dtype
  | drawn_randint int int "int list" int torch_dtype
  | drawn_uniform "int list" int torch_dtype real real
  | drawn_normal "int list" int torch_dtype real real
  | drawn_randn "int list" int torch_dtype

definition dtype_of_name :: "string \<Rightarrow> exn + torch_dtype" where
  "dtype_of_name name =
     (case map_of
        [(''float16'', float16), (''half'', float16), (''bfloat16'', bfloat16),
         (''float32'', float32), (''float'', float32),
         (''float64'', float64), (''double'', float64),
         (''int8'', int8), (''uint8'', uint8),
         (''int16'', int16), (''short'', int16), (''uint16'', uint16),
         (''int32'', int32), (''int'', int32), (''uint32'', uint32),
         (''int64'', int64), (''long'', int64), (''uint64'', uint64),
         (''bool'', torch_bool)] name of
        Some d \<Rightarrow> Inr d
      | None \<Rightarrow> Inl (AttributeError name))"

definition is_floating_point :: "torch_dtype \<Rightarrow> bool" where
  "is_floating_point d = (d \<in> set [float16, bfloat16, float32, float64])"

text \<open>The least and the greatest integer of an integer element type.\<close>

definition int_range :: "torch_dtype \<Rightarrow> (int \<times> int) option" where
  "int_range d =
     (if d = int8 then Some (- 128, 127)
      else if d = uint8 then Some (0, 255)
      else if d = int16 then Some (- 32768, 32767)
      else if d = uint16 then Some (0, 65535)
      else if d = int32 then Some (- 2147483648, 2147483647)
      else if d = uint32 then Some (0, 4294967295)
      else if d = int64 then Some (- 9223372036854775808, 9223372036854775807)
      else if d = uint64 then Some (0, 18446744073709551615)
      else if d = torch_bool then Some (0, 1)
      else None)"

definition splat_shape :: "int list \<Rightarrow> exn option" where
  "splat_shape shp =
     (if shp = [] then Some (TorchError ''no size given'')
      else if \<exists>n \<in> set shp. n < 0 then Some (TorchError ''negative dimension'')
      else None)"

definition lib_fill ::
  "(int list \<Rightarrow> int \<Rightarrow> torch_dtype \<Rightarrow> tensor) \<Rightarrow> int list \<Rightarrow> int \<Rightarrow> torch_dtype \<Rightarrow> exn + tensor" where
  "lib_fill mk shp device d =
     (case splat_shape shp of Some e \<Rightarrow> Inl e | None \<Rightarrow> Inr (mk shp device d))"

definition lib_randint :: "int \<Rightarrow> int \<Rightarrow> int list \<Rightarrow> int \<Rightarrow> torch_dtype \<Rightarrow> exn + tensor" where
  "lib_randint low high shp device d =
     (if \<exists>n \<in> set shp. n < 0 then Inl (TorchError ''negative dimension'')
      else if high \<le> low then Inl (TorchError ''empty range'')
      else case int_range d of
          None \<Rightarrow> Inr (drawn_randint low high shp device d)
        | Some (least, greatest) \<Rightarrow>
            if low < least \<or> greatest < high - 1 then Inl (TorchError ''bound out of range'')
            else Inr (drawn_randint low high shp device d))"

definition lib_empty_sample ::
  "(int list \<Rightarrow> int \<Rightarrow> torch_dtype \<Rightarrow> real \<Rightarrow> real \<Rightarrow> tensor) \<Rightarrow>
     int list \<Rightarrow> int \<Rightarrow> torch_dtype \<Rightarrow> real \<Rightarrow> real \<Rightarrow> exn + tensor" where
  "lib_empty_sample mk shp device d a b =
     (case splat_shape shp of
        Some e \<Rightarrow> Inl e
      | None \<Rightarrow>
          if is_floating_point d then Inr (mk shp device d a b)
          else Inl (TorchError ''not implemented for this element type''))"

definition torch_lib :: "(torch_dtype, tensor) torch" where
  "torch_lib =
     \<lparr>torch_getattribute = dtype_of_name,
      torch_int8 = int8,
      torch_cuda_current_device = Inr 0,
      torch_ones = lib_fill all_ones,
      torch_zeros = lib_fill all_zeros,
      torch_randint = lib_randint,
      torch_empty_uniform = lib_empty_sample drawn_uniform,
      torch_empty_normal = lib_empty_sample drawn_normal,
      torch_randn_to = lib_fill drawn_randn\<rparr>"

section \<open>The tensor comparison (\<^verbatim>\<open>tilelang/utils/tensor.py\<close>)\<close>

text \<open>
  A tensor is modelled by the list of its elements. An element is an 8-bit signed integer,
  with the wrap-around of its arithmetic, or a floating-point number, given by its value;
  not-a-number and the infinities are not modelled. Tensors of the same shape have lists
  of the same length, and every operation below works element by element. For lists of
  different lengths the library's rule for one-dimensional tensors applies: a tensor of
  one element is repeated, and other sizes are refused.
\<close>

datatype elem = I8 "8 word" | Fl real













definition item :: "elem \<Rightarrow> py_value" where
  "item e = (case e of I8 x \<Rightarrow> PyInt (sint x) | Fl v \<Rightarrow> PyFloat v)"







section \<open>The configuration space (\<^verbatim>\<open>benchmark/benchmark_matmul.py\<close>)\<close>

text \<open>A configuration is a dictionary with six fixed keys.\<close>

record config =
  block_M :: int
  block_N :: int
  block_K :: int
  num_stages :: int
  thread_num :: int
  enable_rasteration :: bool

text \<open>
  A hint of the external search. Its \<^verbatim>\<open>rasterization_plan\<close> is an object of the hint
  library: a class itself, or an instance of a class, given by the name of the class and
  the identity of the instance. The name \<^verbatim>\<open>NoRasterization\<close> that the module imports is
  bound to a class of the library. The library gives a hint an instance of a plan class; a
  hint without rasterization, which is what a hint is by default, has an instance of the
  class \<^verbatim>\<open>NoRasterization\<close>.
\<close>

datatype plan = PlanClass string | PlanInstance string nat

definition NoRasterization :: plan where
  "NoRasterization = PlanClass ''NoRasterization''"

text \<open>
  The specification's side: a hint specifies the default plan, no rasterization, when its
  plan is an instance of \<^verbatim>\<open>NoRasterization\<close>.
\<close>

definition is_default_plan :: "plan \<Rightarrow> bool" where
  "is_default_plan p = (case p of PlanInstance cls _ \<Rightarrow> cls = ''NoRasterization'' | PlanClass _ \<Rightarrow> False)"

record hint =
  block :: "int list"
  warp :: "int list"
  rstep :: "int list"
  rasterization_plan :: plan

text \<open>
  The hint library, which is not part of this repository: absent (the imports fail), or
  present with its search, which returns a list of hints or \<^verbatim>\<open>None\<close>.
\<close>

datatype bitblas = NotInstalled | Installed "int \<Rightarrow> int \<Rightarrow> int \<Rightarrow> hint list option"

text \<open>\<^verbatim>\<open>a, b = xs\<close> needs exactly two elements.\<close>

definition unpack2 :: "int list \<Rightarrow> exn + int \<times> int" where
  "unpack2 xs =
     (case xs of
        [a, b] \<Rightarrow> Inr (a, b)
      | [] \<Rightarrow> Inl (ValueError ''not enough values to unpack (expected 2, got 0)'')
      | [a] \<Rightarrow> Inl (ValueError ''not enough values to unpack (expected 2, got 1)'')
      | _ \<Rightarrow> Inl (ValueError ''too many values to unpack (expected 2)''))"

text \<open>
  One turn of the loop over the hints. \<^verbatim>\<open>//\<close> is floor division, as \<open>div\<close> on
  \<open>int\<close> is, and raises on a zero divisor. \<^verbatim>\<open>is not\<close> compares identities: the
  hint's plan with the class that \<^verbatim>\<open>NoRasterization\<close> is bound to.
\<close>

definition config_of_hint :: "hint \<Rightarrow> exn + config" where
  "config_of_hint h =
     (case unpack2 (block h) of
        Inl e \<Rightarrow> Inl e
      | Inr (block_m, block_n) \<Rightarrow>
     (case unpack2 (warp h) of
        Inl e \<Rightarrow> Inl e
      | Inr (warp_m, warp_n) \<Rightarrow>
     (case rstep h of
        [] \<Rightarrow> Inl (IndexError ''list index out of range'')
      | r0 # _ \<Rightarrow>
          if warp_m * warp_n = 0 then Inl ZeroDivisionError
          else Inr \<lparr>block_M = block_m, block_N = block_n, block_K = r0, num_stages = 0,
                    thread_num = (block_m * block_n) div (warp_m * warp_n) * 32,
                    enable_rasteration = (rasterization_plan h \<noteq> NoRasterization)\<rparr>)))"

fun roller_loop :: "hint list \<Rightarrow> config list \<Rightarrow> exn + config list" where
  "roller_loop [] configs = Inr configs"
| "roller_loop (h # hs) configs =
     (case config_of_hint h of
        Inl e \<Rightarrow> Inl e
      | Inr c \<Rightarrow> roller_loop hs (configs @ [c]))"

text \<open>\<^verbatim>\<open>itertools.product\<close> of six lists: the rightmost list varies fastest.\<close>

definition product6 ::
  "'a list \<Rightarrow> 'b list \<Rightarrow> 'c list \<Rightarrow> 'd list \<Rightarrow> 'e list \<Rightarrow> 'f list \<Rightarrow> ('a \<times> 'b \<times> 'c \<times> 'd \<times> 'e \<times> 'f) list" where
  "product6 as bs cs ds es fs =
     concat (map (\<lambda>a. concat (map (\<lambda>b. concat (map (\<lambda>c. concat (map (\<lambda>d.
       concat (map (\<lambda>e. map (\<lambda>f. (a, b, c, d, e, f)) fs) es)) ds)) cs)) bs)) as)"

definition config_of_tuple :: "int \<times> int \<times> int \<times> int \<times> int \<times> bool \<Rightarrow> config" where
  "config_of_tuple c =
     (case c of (c0, c1, c2, c3, c4, c5) \<Rightarrow>
        \<lparr>block_M = c0, block_N = c1, block_K = c2, num_stages = c3, thread_num = c4,
         enable_rasteration = c5\<rparr>)"

text \<open>
  \<^verbatim>\<open>get_configs\<close>. The branch with the roller also prints each configuration, which
  changes none of them.
\<close>

definition get_configs :: "bitblas \<Rightarrow> int \<Rightarrow> int \<Rightarrow> int \<Rightarrow> bool \<Rightarrow> exn + config list" where
  "get_configs lib M N K with_roller =
     (if with_roller then
        (case lib of
           NotInstalled \<Rightarrow> Inl (ModuleNotFoundError ''bitblas'')
         | Installed get_roller_hints_from_func \<Rightarrow>
             (case get_roller_hints_from_func M N K of
                None \<Rightarrow> Inl (ValueError ''No Roller Hints Found for TensorCore Scheduling'')
              | Some roller_hints \<Rightarrow> roller_loop roller_hints []))
      else
        (let block_M_list = [64, 128, 256];
             block_N_list = [64, 128, 256];
             block_K_list = [32, 64];
             num_stages_list = [0, 1, 2, 3];
             thread_num_list = [128, 256];
             enable_rasterization = [True, False];
             configs' = product6 block_M_list block_N_list block_K_list num_stages_list
                          thread_num_list enable_rasterization
         in Inr (map config_of_tuple configs')))"

section \<open>Concrete inputs\<close>

text \<open>
  Two scopes as the binding machinery builds them, for four trailing records with the
  thread extents 64, 2 and 1: \<open>scope_8_4\<close> with two block dimensions and
  \<open>scope_8\<close> with one.
\<close>

definition frame_of :: "string \<Rightarrow> int \<Rightarrow> LaunchThreadFrame" where
  "frame_of name extent = \<lparr>iter_var = \<lparr>var = Var name, dom_extent = extent\<rparr>\<rparr>"

definition trailing_64_2_1 :: "LaunchThreadFrame list" where
  "trailing_64_2_1 = [frame_of ''tx'' 64, frame_of ''ty'' 2, frame_of ''tz'' 1, frame_of ''aux'' 1]"

definition scope_8_4 :: KernelLaunchFrame where
  "scope_8_4 = \<lparr>ident = 1, frames = [frame_of ''bx'' 8, frame_of ''by'' 4] @ trailing_64_2_1\<rparr>"

definition scope_8 :: KernelLaunchFrame where
  "scope_8 = \<lparr>ident = 2, frames = [frame_of ''bx'' 8] @ trailing_64_2_1\<rparr>"

text \<open>
  A hint with the default plan, a hint with another plan, and a search that returns both;
  three tensor descriptions with 8-bit integer element types, the last one of no
  dimension; a description with an element type of the compiler that the tensor library
  does not have, and one with a symbolic dimension.
\<close>

definition hint_128_64 :: hint where
  "hint_128_64 = \<lparr>block = [128, 64], warp = [64, 32], rstep = [32],
                   rasterization_plan = PlanInstance ''NoRasterization'' 0\<rparr>"

definition hint_256_128 :: hint where
  "hint_256_128 = \<lparr>block = [256, 128], warp = [64, 64], rstep = [64, 16],
                    rasterization_plan = PlanInstance ''Rasterization2DColumn'' 1\<rparr>"

definition two_hints :: "int \<Rightarrow> int \<Rightarrow> int \<Rightarrow> hint list option" where
  "two_hints M N K = Some [hint_128_64, hint_256_128]"

definition int8_4x4 :: TensorType where
  "int8_4x4 = \<lparr>dtype = ''int8'', shape = [IntImm 4, IntImm 4]\<rparr>"

definition uint8_4x4 :: TensorType where
  "uint8_4x4 = \<lparr>dtype = ''uint8'', shape = [IntImm 4, IntImm 4]\<rparr>"

definition int8_scalar :: TensorType where
  "int8_scalar = \<lparr>dtype = ''int8'', shape = []\<rparr>"

definition float8_4x4 :: TensorType where
  "float8_4x4 = \<lparr>dtype = ''e4m3_float8'', shape = [IntImm 4, IntImm 4]\<rparr>"

definition int8_nx4 :: TensorType where
  "int8_nx4 = \<lparr>dtype = ''int8'', shape = [SizeVar ''n'', IntImm 4]\<rparr>"

section \<open>Properties of the kernel launch scope\<close>

subsection \<open>The scope stack\<close>

lemma stack_after_enter:
  "stack (kernel_launch_frame_stack (snd (KernelLaunchFrame_enter self w))) =
     stack (kernel_launch_frame_stack w) @ [ident self]"
  by (simp add: KernelLaunchFrame_enter_def FrameStack_push_def Let_def)

lemma super_exit_after_enter:
  "super_exit (snd (KernelLaunchFrame_enter self w)) = super_exit w"
  by (simp add: KernelLaunchFrame_enter_def Let_def)

lemma exit_empty:
  "stack (kernel_launch_frame_stack w) = [] \<Longrightarrow>
     KernelLaunchFrame_exit self w = Inl (IndexError ''FrameStack is empty'')"
  by (simp add: KernelLaunchFrame_exit_def FrameStack_top_def)

lemma exit_nonempty:
  "stack (kernel_launch_frame_stack w) = s @ [t] \<Longrightarrow>
     KernelLaunchFrame_exit self w =
       (case super_exit w (ident self) (tir_calls w) of
          Some e \<Rightarrow> Inl e
        | None \<Rightarrow>
            Inr ((if t = ident self
                  then w\<lparr>kernel_launch_frame_stack := (kernel_launch_frame_stack w)\<lparr>stack := s\<rparr>\<rparr>
                  else w)\<lparr>tir_calls := tir_calls w @ [TIRFrame_exit (ident self)]\<rparr>))"
  by (simp add: KernelLaunchFrame_exit_def FrameStack_top_def FrameStack_pop_def
      split: option.splits)

lemma exit_returns_stack:
  assumes "stack (kernel_launch_frame_stack w) = s @ [t]"
    and "super_exit w (ident self) (tir_calls w) = None"
  shows "\<exists>w'. KernelLaunchFrame_exit self w = Inr w'
           \<and> stack (kernel_launch_frame_stack w') = (if t = ident self then s else s @ [t])
           \<and> super_exit w' = super_exit w"
  using assms by (simp add: exit_nonempty [OF assms(1)])

lemma exit_super_raises:
  assumes "stack (kernel_launch_frame_stack w) = s @ [t]"
    and "super_exit w (ident self) (tir_calls w) = Some e"
  shows "KernelLaunchFrame_exit self w = Inl e"
  using assms by (simp add: exit_nonempty [OF assms(1)])

lemma exit_Inr:
  assumes "KernelLaunchFrame_exit self w = Inr w'"
    and "stack (kernel_launch_frame_stack w) = s @ [t]"
  shows "stack (kernel_launch_frame_stack w') = (if t = ident self then s else s @ [t])
           \<and> super_exit w' = super_exit w"
  using assms by (auto simp: exit_nonempty [OF assms(2)] split: option.splits)

lemma exit_Inl:
  assumes "KernelLaunchFrame_exit self w = Inl e"
    and "stack (kernel_launch_frame_stack w) = s @ [t]"
  shows "super_exit w (ident self) (tir_calls w) = Some e"
  using assms by (auto simp: exit_nonempty [OF assms(2)] split: option.splits)

lemma Current_top:
  "stack (kernel_launch_frame_stack w) = s @ [t] \<Longrightarrow> KernelLaunchFrame_Current w = Inr t"
  by (simp add: KernelLaunchFrame_Current_def FrameStack_top_def)

text \<open>
  Along a properly nested sequence: a run that returns leaves the scopes still open on
  top of what the stack held; a run that raises raises what the base class raised; and
  the run returns when the base class returns from every exit.
\<close>

lemma run_properly_nested:
  "open_scopes es opened = Some opened' \<Longrightarrow>
   stack (kernel_launch_frame_stack w) = s @ rev opened \<Longrightarrow>
   (\<forall>w'. run es w = Inr w' \<longrightarrow> stack (kernel_launch_frame_stack w') = s @ rev opened')
   \<and> (\<forall>e. run es w = Inl e \<longrightarrow> (\<exists>f calls. super_exit w f calls = Some e))
   \<and> ((\<forall>f calls. super_exit w f calls = None) \<longrightarrow> (\<exists>w'. run es w = Inr w'))"
proof (induction es opened arbitrary: w rule: open_scopes.induct)
  case (1 opened)
  then show ?case by simp
next
  case (2 f es opened)
  let ?w1 = "snd (KernelLaunchFrame_enter f w)"
  have "stack (kernel_launch_frame_stack ?w1) = s @ rev (ident f # opened)"
    using "2.prems"(2) by (simp add: stack_after_enter)
  with "2.IH" [of ?w1] "2.prems"(1) show ?case
    by (simp add: super_exit_after_enter)
next
  case (3 f es opened)
  from "3.prems"(1) obtain rest where op: "opened = ident f # rest"
      and os: "open_scopes es rest = Some opened'"
    by (auto split: list.splits if_splits)
  from "3.prems"(2) op have st: "stack (kernel_launch_frame_stack w) = (s @ rev rest) @ [ident f]"
    by simp
  show ?case
  proof (cases "super_exit w (ident f) (tir_calls w)")
    case None
    from exit_returns_stack [OF st None] obtain w1 where
      ex: "KernelLaunchFrame_exit f w = Inr w1" and
      s1: "stack (kernel_launch_frame_stack w1) = s @ rev rest" and
      su: "super_exit w1 = super_exit w"
      by auto
    from "3.IH" [OF op _ os s1] su ex show ?thesis by simp
  next
    case (Some e)
    from exit_super_raises [OF st Some] have "KernelLaunchFrame_exit f w = Inl e" .
    with Some show ?thesis by auto
  qed
qed

lemma open_scopes_not_yet_exited:
  "open_scopes es opened = Some opened' \<Longrightarrow> not_yet_exited es opened = opened'"
  by (induction es opened rule: open_scopes.induct) (auto split: list.splits if_splits)

subsection \<open>What entering a scope returns\<close>

lemma slice_0_neg4_append:
  "length trailing = 4 \<Longrightarrow> slice_0_neg4 (blocks @ trailing) = blocks"
  by (simp add: slice_0_neg4_def)

text \<open>
  Claim C1. Entering a kernel launch scope returns the block-index variable of frame 0
  itself when the scope has exactly 5 frames, and otherwise the list of the block-index
  variables of all frames but the last 4, in order: when the frames are \<open>blocks\<close>
  followed by the 4 trailing records, one variable for each element of \<open>blocks\<close>, and
  the empty list when there are at most 4 frames.
\<close>

theorem enter_returns_block_vars:
  "(length (frames self) = 5 \<longrightarrow>
      fst (KernelLaunchFrame_enter self w) = OneVar (var (iter_var (frames self ! 0))))
   \<and> (length (frames self) \<noteq> 5 \<and> frames self = blocks @ trailing \<and> length trailing = 4 \<longrightarrow>
      fst (KernelLaunchFrame_enter self w) = VarList (map (\<lambda>frame. var (iter_var frame)) blocks)
      \<and> length (map (\<lambda>frame. var (iter_var frame)) blocks) = length (frames self) - 4)
   \<and> (length (frames self) \<le> 4 \<longrightarrow> fst (KernelLaunchFrame_enter self w) = VarList [])"
proof (intro conjI impI)
  assume "length (frames self) = 5"
  then show "fst (KernelLaunchFrame_enter self w) = OneVar (var (iter_var (frames self ! 0)))"
    by (simp add: KernelLaunchFrame_enter_def Let_def)
next
  assume a: "length (frames self) \<noteq> 5 \<and> frames self = blocks @ trailing \<and> length trailing = 4"
  then have "slice_0_neg4 (frames self) = blocks"
    by (simp add: slice_0_neg4_append)
  moreover from a have "length (frames self) \<noteq> 5" by blast
  ultimately show "fst (KernelLaunchFrame_enter self w) = VarList (map (\<lambda>frame. var (iter_var frame)) blocks)"
    unfolding KernelLaunchFrame_enter_def Let_def by (simp only: if_False fst_conv)
  from a show "length (map (\<lambda>frame. var (iter_var frame)) blocks) = length (frames self) - 4"
    by simp
next
  assume "length (frames self) \<le> 4"
  then show "fst (KernelLaunchFrame_enter self w) = VarList []"
    by (simp add: KernelLaunchFrame_enter_def Let_def slice_0_neg4_def)
qed

text \<open>
  The two scopes of the specification's tests: one block dimension gives the variable,
  two block dimensions give the list of both.
\<close>

theorem enter_returns_block_vars_witness:
  "length (frames scope_8) = 5
   \<and> fst (KernelLaunchFrame_enter scope_8 world_init) = OneVar (Var ''bx'')
   \<and> length (frames scope_8_4) \<noteq> 5
   \<and> frames scope_8_4 = [frame_of ''bx'' 8, frame_of ''by'' 4] @ trailing_64_2_1
   \<and> length trailing_64_2_1 = 4
   \<and> fst (KernelLaunchFrame_enter scope_8_4 world_init) = VarList [Var ''bx'', Var ''by'']"
proof -
  have h1: "length (frames scope_8) = 5"
    by (simp add: scope_8_def trailing_64_2_1_def)
  have h2: "length (frames scope_8_4) \<noteq> 5 \<and>
            frames scope_8_4 = [frame_of ''bx'' 8, frame_of ''by'' 4] @ trailing_64_2_1 \<and>
            length trailing_64_2_1 = 4"
    by (simp add: scope_8_4_def trailing_64_2_1_def)
  from h1 enter_returns_block_vars [of scope_8 world_init "[]" "[]"]
  have r1: "fst (KernelLaunchFrame_enter scope_8 world_init) = OneVar (var (iter_var (frames scope_8 ! 0)))"
    by blast
  from h2 enter_returns_block_vars [of scope_8_4 world_init "[frame_of ''bx'' 8, frame_of ''by'' 4]" trailing_64_2_1]
  have r2: "fst (KernelLaunchFrame_enter scope_8_4 world_init) =
            VarList (map (\<lambda>frame. var (iter_var frame)) [frame_of ''bx'' 8, frame_of ''by'' 4])"
    by blast
  from r1 have "fst (KernelLaunchFrame_enter scope_8 world_init) = OneVar (Var ''bx'')"
    by (simp add: scope_8_def frame_of_def)
  moreover from r2 have "fst (KernelLaunchFrame_enter scope_8_4 world_init) = VarList [Var ''bx'', Var ''by'']"
    by (simp add: frame_of_def)
  ultimately show ?thesis using h1 h2 by blast
qed

subsection \<open>The current scope and the empty stack\<close>

text \<open>
  Claim C3. With no scope active, \<^verbatim>\<open>KernelLaunchFrame.Current()\<close> does not return a
  "no active scope" value: \<^verbatim>\<open>FrameStack.top\<close> raises \<^verbatim>\<open>IndexError\<close>, although the
  docstrings of \<^verbatim>\<open>top\<close> and of \<^verbatim>\<open>Current\<close> promise \<^verbatim>\<open>None\<close>.
\<close>

theorem Current_on_empty_stack_raises:
  "KernelLaunchFrame_Current world_init = Inl (IndexError ''FrameStack is empty'')"
  by (simp add: KernelLaunchFrame_Current_def FrameStack_top_def world_init_def FrameStack_init_def)

text \<open>
  Claim C10. Exiting a scope while the stack is empty raises \<^verbatim>\<open>IndexError\<close>, since
  the exit asks for the top of the stack before anything else; an exit that completes
  without error had at least one scope on the stack.
\<close>

theorem exit_on_empty_stack_raises:
  "(stack (kernel_launch_frame_stack w) = [] \<longrightarrow>
      KernelLaunchFrame_exit self w = Inl (IndexError ''FrameStack is empty''))
   \<and> ((\<exists>w'. KernelLaunchFrame_exit self w = Inr w') \<longrightarrow> stack (kernel_launch_frame_stack w) \<noteq> [])"
  by (auto simp: exit_empty)

text \<open>
  On the fresh stack the exit raises; after the scope has been entered it completes.
\<close>

theorem exit_on_empty_stack_raises_witness:
  "stack (kernel_launch_frame_stack world_init) = []
   \<and> KernelLaunchFrame_exit scope_8 world_init = Inl (IndexError ''FrameStack is empty'')
   \<and> (\<exists>w'. KernelLaunchFrame_exit scope_8 (snd (KernelLaunchFrame_enter scope_8 world_init)) = Inr w')
   \<and> stack (kernel_launch_frame_stack (snd (KernelLaunchFrame_enter scope_8 world_init))) \<noteq> []"
proof -
  have e: "stack (kernel_launch_frame_stack world_init) = []"
    by (simp add: world_init_def FrameStack_init_def)
  have x: "\<exists>w'. KernelLaunchFrame_exit scope_8 (snd (KernelLaunchFrame_enter scope_8 world_init)) = Inr w'"
    by (simp add: KernelLaunchFrame_exit_def KernelLaunchFrame_enter_def Let_def FrameStack_top_def
        FrameStack_pop_def FrameStack_push_def world_init_def FrameStack_init_def exit_returns_def)
  from e exit_on_empty_stack_raises [of world_init scope_8]
  have "KernelLaunchFrame_exit scope_8 world_init = Inl (IndexError ''FrameStack is empty'')"
    by blast
  moreover from x exit_on_empty_stack_raises [of "snd (KernelLaunchFrame_enter scope_8 world_init)" scope_8]
  have "stack (kernel_launch_frame_stack (snd (KernelLaunchFrame_enter scope_8 world_init))) \<noteq> []"
    by blast
  ultimately show ?thesis using e x by blast
qed


subsection \<open>The LIFO discipline\<close>

lemma nested_pair:
  assumes "\<forall>f calls. super_exit w f calls = None"
  shows "\<exists>w3. KernelLaunchFrame_exit b (snd (KernelLaunchFrame_enter b (snd (KernelLaunchFrame_enter a w)))) = Inr w3
      \<and> KernelLaunchFrame_Current w3 = Inr (ident a)
      \<and> (\<exists>w4. KernelLaunchFrame_exit a w3 = Inr w4
            \<and> stack (kernel_launch_frame_stack w4) = stack (kernel_launch_frame_stack w))"
proof -
  let ?w1 = "snd (KernelLaunchFrame_enter a w)"
  let ?w2 = "snd (KernelLaunchFrame_enter b ?w1)"
  have s2: "stack (kernel_launch_frame_stack ?w2) = (stack (kernel_launch_frame_stack w) @ [ident a]) @ [ident b]"
    by (simp only: stack_after_enter)
  have u2: "super_exit ?w2 = super_exit w"
    by (simp only: super_exit_after_enter)
  with assms have "super_exit ?w2 (ident b) (tir_calls ?w2) = None" by simp
  from exit_returns_stack [OF s2 this] u2 obtain w3 where
    e3: "KernelLaunchFrame_exit b ?w2 = Inr w3" and
    s3: "stack (kernel_launch_frame_stack w3) = stack (kernel_launch_frame_stack w) @ [ident a]" and
    u3: "super_exit w3 = super_exit w"
    by auto
  from u3 assms have "super_exit w3 (ident a) (tir_calls w3) = None" by simp
  from exit_returns_stack [OF s3 this] obtain w4 where
    e4: "KernelLaunchFrame_exit a w3 = Inr w4" and
    s4: "stack (kernel_launch_frame_stack w4) = stack (kernel_launch_frame_stack w)"
    by auto
  from e3 Current_top [OF s3] e4 s4 show ?thesis by blast
qed

text \<open>
  Claim C2, amended. The scope stack is last-in first-out along properly nested
  sequences. Entering a scope pushes it, and it is then the current scope. An exit on a
  non-empty stack raises what the base class raises from \<^verbatim>\<open>super().__exit__\<close>; when
  the base class returns, the exit has popped the stack exactly if the exiting scope was
  the top, and has removed nothing if another scope was the top. Along every properly
  nested sequence of entries and exits: the scopes entered and not yet exited are the
  open ones; a run that returns leaves them on top of what the stack held before, the
  most recently entered one current; a run that raises raises what the base class
  raised; and the run returns when the base class returns from every exit. In
  particular, for A entered and then B: B is current, and with such a base class exiting
  B makes A current and exiting A then gives back the stack from before, the empty stack
  if it was empty.
\<close>

theorem scope_stack_lifo:
  "stack (kernel_launch_frame_stack (snd (KernelLaunchFrame_enter a w))) =
       stack (kernel_launch_frame_stack w) @ [ident a]
   \<and> KernelLaunchFrame_Current (snd (KernelLaunchFrame_enter a w)) = Inr (ident a)
   \<and> (stack (kernel_launch_frame_stack w) = s @ [t] \<and> super_exit w (ident a) (tir_calls w) = None \<longrightarrow>
        (\<exists>w1. KernelLaunchFrame_exit a w = Inr w1
           \<and> stack (kernel_launch_frame_stack w1) = (if t = ident a then s else s @ [t])))
   \<and> (stack (kernel_launch_frame_stack w) = s @ [t] \<and> super_exit w (ident a) (tir_calls w) = Some e \<longrightarrow>
        KernelLaunchFrame_exit a w = Inl e)
   \<and> (open_scopes es opened = Some opened' \<and> stack (kernel_launch_frame_stack w) = s0 @ rev opened \<longrightarrow>
        not_yet_exited es opened = opened'
        \<and> (\<forall>w'. run es w = Inr w' \<longrightarrow>
              stack (kernel_launch_frame_stack w') = s0 @ rev opened'
              \<and> (opened' \<noteq> [] \<longrightarrow> KernelLaunchFrame_Current w' = Inr (hd opened')))
        \<and> (\<forall>e'. run es w = Inl e' \<longrightarrow> (\<exists>f calls. super_exit w f calls = Some e'))
        \<and> ((\<forall>f calls. super_exit w f calls = None) \<longrightarrow> (\<exists>w'. run es w = Inr w')))
   \<and> KernelLaunchFrame_Current (snd (KernelLaunchFrame_enter b (snd (KernelLaunchFrame_enter a w)))) = Inr (ident b)
   \<and> ((\<forall>f calls. super_exit w f calls = None) \<longrightarrow>
        (\<exists>w3. KernelLaunchFrame_exit b (snd (KernelLaunchFrame_enter b (snd (KernelLaunchFrame_enter a w)))) = Inr w3
           \<and> KernelLaunchFrame_Current w3 = Inr (ident a)
           \<and> (\<exists>w4. KernelLaunchFrame_exit a w3 = Inr w4
                 \<and> stack (kernel_launch_frame_stack w4) = stack (kernel_launch_frame_stack w)
                 \<and> (stack (kernel_launch_frame_stack w) = [] \<longrightarrow> stack (kernel_launch_frame_stack w4) = []))))"
proof (intro conjI impI)
  show "stack (kernel_launch_frame_stack (snd (KernelLaunchFrame_enter a w))) =
          stack (kernel_launch_frame_stack w) @ [ident a]"
    by (rule stack_after_enter)
  then show "KernelLaunchFrame_Current (snd (KernelLaunchFrame_enter a w)) = Inr (ident a)"
    by (rule Current_top)
next
  assume "stack (kernel_launch_frame_stack w) = s @ [t] \<and> super_exit w (ident a) (tir_calls w) = None"
  then show "\<exists>w1. KernelLaunchFrame_exit a w = Inr w1
           \<and> stack (kernel_launch_frame_stack w1) = (if t = ident a then s else s @ [t])"
    using exit_returns_stack [of w s t a] by blast
next
  assume "stack (kernel_launch_frame_stack w) = s @ [t] \<and> super_exit w (ident a) (tir_calls w) = Some e"
  then show "KernelLaunchFrame_exit a w = Inl e"
    using exit_super_raises [of w s t a e] by blast
next
  assume h: "open_scopes es opened = Some opened' \<and> stack (kernel_launch_frame_stack w) = s0 @ rev opened"
  then show "not_yet_exited es opened = opened'"
    by (simp add: open_scopes_not_yet_exited)
  from h have n: "(\<forall>w'. run es w = Inr w' \<longrightarrow> stack (kernel_launch_frame_stack w') = s0 @ rev opened')
     \<and> (\<forall>e. run es w = Inl e \<longrightarrow> (\<exists>f calls. super_exit w f calls = Some e))
     \<and> ((\<forall>f calls. super_exit w f calls = None) \<longrightarrow> (\<exists>w'. run es w = Inr w'))"
    using run_properly_nested [of es opened opened' w s0] by blast
  show "\<forall>w'. run es w = Inr w' \<longrightarrow>
          stack (kernel_launch_frame_stack w') = s0 @ rev opened'
          \<and> (opened' \<noteq> [] \<longrightarrow> KernelLaunchFrame_Current w' = Inr (hd opened'))"
  proof (intro allI impI conjI)
    fix w'
    assume r: "run es w = Inr w'"
    with n show st: "stack (kernel_launch_frame_stack w') = s0 @ rev opened'" by blast
    assume "opened' \<noteq> []"
    then obtain g rest where o: "opened' = g # rest" by (cases opened') auto
    with st have "stack (kernel_launch_frame_stack w') = (s0 @ rev rest) @ [g]" by simp
    from Current_top [OF this] o show "KernelLaunchFrame_Current w' = Inr (hd opened')" by simp
  qed
  from n show "\<forall>e'. run es w = Inl e' \<longrightarrow> (\<exists>f calls. super_exit w f calls = Some e')" by blast
  assume "\<forall>f calls. super_exit w f calls = None"
  with n show "\<exists>w'. run es w = Inr w'" by blast
next
  have "stack (kernel_launch_frame_stack (snd (KernelLaunchFrame_enter b (snd (KernelLaunchFrame_enter a w))))) =
          stack (kernel_launch_frame_stack (snd (KernelLaunchFrame_enter a w))) @ [ident b]"
    by (rule stack_after_enter)
  then show "KernelLaunchFrame_Current (snd (KernelLaunchFrame_enter b (snd (KernelLaunchFrame_enter a w)))) = Inr (ident b)"
    by (rule Current_top)
next
  assume "\<forall>f calls. super_exit w f calls = None"
  from nested_pair [OF this, of b a]
  show "\<exists>w3. KernelLaunchFrame_exit b (snd (KernelLaunchFrame_enter b (snd (KernelLaunchFrame_enter a w)))) = Inr w3
        \<and> KernelLaunchFrame_Current w3 = Inr (ident a)
        \<and> (\<exists>w4. KernelLaunchFrame_exit a w3 = Inr w4
              \<and> stack (kernel_launch_frame_stack w4) = stack (kernel_launch_frame_stack w)
              \<and> (stack (kernel_launch_frame_stack w) = [] \<longrightarrow> stack (kernel_launch_frame_stack w4) = []))"
    by metis
qed

text \<open>
  With the base class that keeps to the order: enter A, enter B, exit B leaves A
  current, and an exit of A while B is the top raises what the base class raises. With
  the base class that always returns: an exit of B while A is the top removes nothing,
  and A then B, exited in order, give back the empty stack.
\<close>

theorem scope_stack_lifo_witness:
  "open_scopes [Enter scope_8, Enter scope_8_4, Exit scope_8_4] [] = Some [2]
   \<and> stack (kernel_launch_frame_stack world_in_order) = [] @ rev []
   \<and> run [Enter scope_8, Enter scope_8_4, Exit scope_8_4] world_in_order =
       Inr (world_in_order\<lparr>kernel_launch_frame_stack := \<lparr>stack = [2]\<rparr>,
              tir_calls := [TIRFrame_enter 2, TIRFrame_enter 1, TIRFrame_exit 1]\<rparr>)
   \<and> KernelLaunchFrame_Current (world_in_order\<lparr>kernel_launch_frame_stack := \<lparr>stack = [2]\<rparr>,
              tir_calls := [TIRFrame_enter 2, TIRFrame_enter 1, TIRFrame_exit 1]\<rparr>) = Inr 2
   \<and> stack (kernel_launch_frame_stack
         (snd (KernelLaunchFrame_enter scope_8_4 (snd (KernelLaunchFrame_enter scope_8 world_in_order))))) = [2] @ [1]
   \<and> KernelLaunchFrame_exit scope_8
         (snd (KernelLaunchFrame_enter scope_8_4 (snd (KernelLaunchFrame_enter scope_8 world_in_order)))) =
       Inl (RuntimeError ''frame exited out of order'')
   \<and> stack (kernel_launch_frame_stack (snd (KernelLaunchFrame_enter scope_8 world_init))) = [] @ [2]
   \<and> (\<exists>w1. KernelLaunchFrame_exit scope_8_4 (snd (KernelLaunchFrame_enter scope_8 world_init)) = Inr w1
         \<and> stack (kernel_launch_frame_stack w1) = [2])
   \<and> (\<forall>f calls. super_exit world_init f calls = None)
   \<and> (\<exists>w3. KernelLaunchFrame_exit scope_8_4
              (snd (KernelLaunchFrame_enter scope_8_4 (snd (KernelLaunchFrame_enter scope_8 world_init)))) = Inr w3
         \<and> KernelLaunchFrame_Current w3 = Inr 2
         \<and> (\<exists>w4. KernelLaunchFrame_exit scope_8 w3 = Inr w4 \<and> stack (kernel_launch_frame_stack w4) = []))"
proof -
  let ?es = "[Enter scope_8, Enter scope_8_4, Exit scope_8_4]"
  let ?W = "world_in_order\<lparr>kernel_launch_frame_stack := \<lparr>stack = [2]\<rparr>,
              tir_calls := [TIRFrame_enter 2, TIRFrame_enter 1, TIRFrame_exit 1]\<rparr>"
  let ?w2 = "snd (KernelLaunchFrame_enter scope_8_4 (snd (KernelLaunchFrame_enter scope_8 world_in_order)))"
  let ?v1 = "snd (KernelLaunchFrame_enter scope_8 world_init)"
  have i: "ident scope_8 = 2" "ident scope_8_4 = 1"
    by (simp_all add: scope_8_def scope_8_4_def)
  have o: "open_scopes ?es [] = Some [2]"
    by (simp add: i)
  have e: "stack (kernel_launch_frame_stack world_in_order) = []"
      "stack (kernel_launch_frame_stack world_init) = []"
    by (simp_all add: world_in_order_def world_init_def FrameStack_init_def)
  have r: "run ?es world_in_order = Inr ?W"
    by (simp add: i KernelLaunchFrame_enter_def KernelLaunchFrame_exit_def Let_def FrameStack_push_def
        FrameStack_top_def FrameStack_pop_def world_in_order_def world_init_def FrameStack_init_def
        exit_in_order_def)
  from o e r scope_stack_lifo [of scope_8 world_in_order "[]" 0 ZeroDivisionError ?es "[]" "[2]" "[]" scope_8_4]
  have a: "KernelLaunchFrame_Current ?W = Inr 2"
    by simp
  have s2: "stack (kernel_launch_frame_stack ?w2) = [2] @ [1]"
    by (simp add: stack_after_enter i e)
  have u2: "super_exit ?w2 (ident scope_8) (tir_calls ?w2) = Some (RuntimeError ''frame exited out of order'')"
    by (simp add: i KernelLaunchFrame_enter_def Let_def world_in_order_def world_init_def exit_in_order_def)
  from s2 u2 scope_stack_lifo [of scope_8 ?w2 "[2]" 1 "RuntimeError ''frame exited out of order''" "[]" "[]" "[]" "[]" scope_8]
  have b: "KernelLaunchFrame_exit scope_8 ?w2 = Inl (RuntimeError ''frame exited out of order'')"
    by blast
  have s1: "stack (kernel_launch_frame_stack ?v1) = [] @ [2]"
    by (simp add: stack_after_enter i e)
  have n: "\<forall>f calls. super_exit world_init f calls = None"
    by (simp add: world_init_def exit_returns_def)
  then have u1: "super_exit ?v1 (ident scope_8_4) (tir_calls ?v1) = None"
    by (simp add: super_exit_after_enter)
  from s1 u1 i scope_stack_lifo [of scope_8_4 ?v1 "[]" 2 ZeroDivisionError "[]" "[]" "[]" "[]" scope_8]
  have c: "\<exists>w1. KernelLaunchFrame_exit scope_8_4 ?v1 = Inr w1 \<and> stack (kernel_launch_frame_stack w1) = [2]"
    by simp
  from n e i scope_stack_lifo [of scope_8 world_init "[]" 0 ZeroDivisionError "[]" "[]" "[]" "[]" scope_8_4]
  have d: "\<exists>w3. KernelLaunchFrame_exit scope_8_4
              (snd (KernelLaunchFrame_enter scope_8_4 (snd (KernelLaunchFrame_enter scope_8 world_init)))) = Inr w3
         \<and> KernelLaunchFrame_Current w3 = Inr 2
         \<and> (\<exists>w4. KernelLaunchFrame_exit scope_8 w3 = Inr w4 \<and> stack (kernel_launch_frame_stack w4) = [])"
    by simp
  from o e r a s2 b s1 c n d show ?thesis by simp
qed

text \<open>
  The claim as first stated has the current scope always the most recently entered scope
  that has not exited. After enter A, enter B, exit A, exit B, with a base class that
  returns from every exit, no call has failed and every scope entered has exited, yet A is
  on the stack and is the current scope.
\<close>

theorem stale_scope_is_current:
  "run [Enter scope_8, Enter scope_8_4, Exit scope_8, Exit scope_8_4] world_init =
     Inr (world_init\<lparr>kernel_launch_frame_stack := \<lparr>stack = [2]\<rparr>,
            tir_calls := [TIRFrame_enter 2, TIRFrame_enter 1, TIRFrame_exit 2, TIRFrame_exit 1]\<rparr>)
   \<and> not_yet_exited [Enter scope_8, Enter scope_8_4, Exit scope_8, Exit scope_8_4] [] = []
   \<and> ident scope_8 = 2
   \<and> KernelLaunchFrame_Current
       (world_init\<lparr>kernel_launch_frame_stack := \<lparr>stack = [2]\<rparr>,
            tir_calls := [TIRFrame_enter 2, TIRFrame_enter 1, TIRFrame_exit 2, TIRFrame_exit 1]\<rparr>) = Inr 2"
  by (simp add: scope_8_def scope_8_4_def KernelLaunchFrame_enter_def KernelLaunchFrame_exit_def Let_def
      FrameStack_push_def FrameStack_top_def FrameStack_pop_def world_init_def FrameStack_init_def
      exit_returns_def KernelLaunchFrame_Current_def)

section \<open>Properties of the target resolver\<close>

text \<open>
  Claim C7. On \<^verbatim>\<open>"auto"\<close> the resolver returns \<^verbatim>\<open>"cuda"\<close> whenever the CUDA probe
  reports available, whatever the HIP probe says, \<^verbatim>\<open>"hip"\<close> when only the HIP probe
  does, and raises \<^verbatim>\<open>ValueError\<close> when neither does. On any other input it raises
  \<^verbatim>\<open>AssertionError\<close> unless the input is a \<^verbatim>\<open>Target\<close> object or one of the strings
  \<^verbatim>\<open>"cuda"\<close> and \<^verbatim>\<open>"hip"\<close>, which it returns unchanged.
\<close>

theorem determine_target_cases:
  "(check_cuda_availability env \<longrightarrow> determine_target env (PyStr ''auto'') = Inr (PyStr ''cuda''))
   \<and> (\<not> check_cuda_availability env \<and> check_hip_availability env \<longrightarrow>
        determine_target env (PyStr ''auto'') = Inr (PyStr ''hip''))
   \<and> (\<not> check_cuda_availability env \<and> \<not> check_hip_availability env \<longrightarrow>
        determine_target env (PyStr ''auto'') = Inl (ValueError ''No CUDA or HIP available on this system.''))
   \<and> (target \<noteq> PyStr ''auto'' \<longrightarrow>
        determine_target env target =
          (if isinstance_Target target \<or> target = PyStr ''cuda'' \<or> target = PyStr ''hip''
           then Inr target
           else Inl (AssertionError [PyStr ''Target '', target, PyStr '' is not supported''])))"
  by (simp add: determine_target_def Let_def)

text \<open>
  Machines with both toolkits, with ROCm only and with neither; an unknown backend name,
  a known one and a target object.
\<close>

theorem determine_target_cases_witness:
  "check_cuda_availability \<lparr>find_cuda_path = Inr ''/usr/local/cuda'', find_rocm_path = Inr ''/opt/rocm''\<rparr>
   \<and> determine_target \<lparr>find_cuda_path = Inr ''/usr/local/cuda'', find_rocm_path = Inr ''/opt/rocm''\<rparr>
        (PyStr ''auto'') = Inr (PyStr ''cuda'')
   \<and> \<not> check_cuda_availability \<lparr>find_cuda_path = Inl (RuntimeError ''Cannot find cuda path''), find_rocm_path = Inr ''/opt/rocm''\<rparr>
   \<and> check_hip_availability \<lparr>find_cuda_path = Inl (RuntimeError ''Cannot find cuda path''), find_rocm_path = Inr ''/opt/rocm''\<rparr>
   \<and> determine_target \<lparr>find_cuda_path = Inl (RuntimeError ''Cannot find cuda path''), find_rocm_path = Inr ''/opt/rocm''\<rparr>
        (PyStr ''auto'') = Inr (PyStr ''hip'')
   \<and> \<not> check_hip_availability \<lparr>find_cuda_path = Inl (RuntimeError ''Cannot find cuda path''),
                                 find_rocm_path = Inl (RuntimeError ''Cannot find rocm path'')\<rparr>
   \<and> determine_target \<lparr>find_cuda_path = Inl (RuntimeError ''Cannot find cuda path''),
                        find_rocm_path = Inl (RuntimeError ''Cannot find rocm path'')\<rparr>
        (PyStr ''auto'') = Inl (ValueError ''No CUDA or HIP available on this system.'')
   \<and> PyStr ''opencl'' \<noteq> PyStr ''auto''
   \<and> determine_target \<lparr>find_cuda_path = Inr ''/usr/local/cuda'', find_rocm_path = Inr ''/opt/rocm''\<rparr>
        (PyStr ''opencl'') = Inl (AssertionError [PyStr ''Target '', PyStr ''opencl'', PyStr '' is not supported''])
   \<and> determine_target \<lparr>find_cuda_path = Inr ''/usr/local/cuda'', find_rocm_path = Inr ''/opt/rocm''\<rparr>
        (PyStr ''hip'') = Inr (PyStr ''hip'')
   \<and> determine_target \<lparr>find_cuda_path = Inr ''/usr/local/cuda'', find_rocm_path = Inr ''/opt/rocm''\<rparr>
        (PyObject ''Target'' 7) = Inr (PyObject ''Target'' 7)"
proof -
  let ?both = "\<lparr>find_cuda_path = Inr ''/usr/local/cuda'', find_rocm_path = Inr ''/opt/rocm''\<rparr>"
  let ?hip = "\<lparr>find_cuda_path = Inl (RuntimeError ''Cannot find cuda path''), find_rocm_path = Inr ''/opt/rocm''\<rparr>"
  let ?none = "\<lparr>find_cuda_path = Inl (RuntimeError ''Cannot find cuda path''),
                find_rocm_path = Inl (RuntimeError ''Cannot find rocm path'')\<rparr>"
  have p: "check_cuda_availability ?both" "\<not> check_cuda_availability ?hip" "check_hip_availability ?hip"
    "\<not> check_cuda_availability ?none" "\<not> check_hip_availability ?none"
    by (simp_all add: check_cuda_availability_def check_hip_availability_def)
  have q: "PyStr ''opencl'' \<noteq> PyStr ''auto''" "PyStr ''hip'' \<noteq> PyStr ''auto''"
    "PyObject ''Target'' 7 \<noteq> PyStr ''auto''"
    by simp_all
  have t: "isinstance_Target (PyObject ''Target'' 7)" "\<not> isinstance_Target (PyStr ''opencl'')"
    by (simp_all add: isinstance_Target_def)
  from p determine_target_cases [of ?both "PyStr ''opencl''"]
  have 1: "determine_target ?both (PyStr ''auto'') = Inr (PyStr ''cuda'')" by blast
  from p determine_target_cases [of ?hip "PyStr ''opencl''"]
  have 2: "determine_target ?hip (PyStr ''auto'') = Inr (PyStr ''hip'')" by blast
  from p determine_target_cases [of ?none "PyStr ''opencl''"]
  have 3: "determine_target ?none (PyStr ''auto'') = Inl (ValueError ''No CUDA or HIP available on this system.'')"
    by blast
  from q t determine_target_cases [of ?both "PyStr ''opencl''"]
  have 4: "determine_target ?both (PyStr ''opencl'') =
             Inl (AssertionError [PyStr ''Target '', PyStr ''opencl'', PyStr '' is not supported''])"
    by simp
  from q determine_target_cases [of ?both "PyStr ''hip''"]
  have 5: "determine_target ?both (PyStr ''hip'') = Inr (PyStr ''hip'')" by simp
  from q t determine_target_cases [of ?both "PyObject ''Target'' 7"]
  have 6: "determine_target ?both (PyObject ''Target'' 7) = Inr (PyObject ''Target'' 7)" by simp
  from p q 1 2 3 4 5 6 show ?thesis by blast
qed

section \<open>Properties of the scope constructor\<close>

lemma Kernel_threads_int:
  "isinstance_int v \<Longrightarrow>
   Kernel blocks v prelude =
     Inr \<lparr>call_blocks = blocks, call_threads = [v, PyInt 1, PyInt 1],
          call_attrs = (case prelude of None \<Rightarrow> [] | Some p \<Rightarrow> [(''pragma_import_c'', p)])\<rparr>"
  by (simp add: Kernel_def)

lemma padded:
  "length xs \<le> 3 \<Longrightarrow> length (xs @ replicate (3 - length xs) y) = 3"
  by simp

lemma padded_nth:
  "i < 3 \<Longrightarrow> length xs \<le> 3 \<Longrightarrow>
   (xs @ replicate (3 - length xs) y) ! i = (if i < length xs then xs ! i else y)"
  by (simp add: nth_append)

text \<open>
  Claim C9. \<^verbatim>\<open>Kernel\<close> passes on \<^verbatim>\<open>threads\<close> normalised: an integer \<open>t\<close> as
  \<open>[t, 1, 1]\<close>; a list or tuple of at most 3 elements padded on the right with 1s to
  length 3, its own elements first; a value that is neither an integer, a list nor a
  tuple raises \<^verbatim>\<open>ValueError\<close>.
\<close>

theorem Kernel_normalizes_threads:
  "(\<exists>c. Kernel blocks (PyInt t) prelude = Inr c \<and> call_threads c = [PyInt t, PyInt 1, PyInt 1])
   \<and> (length xs \<le> 3 \<and> (threads = PyList xs \<or> threads = PyTuple xs) \<longrightarrow>
        (\<exists>c. Kernel blocks threads prelude = Inr c
           \<and> call_threads c = xs @ replicate (3 - length xs) (PyInt 1)
           \<and> length (call_threads c) = 3
           \<and> (\<forall>i<3. call_threads c ! i = (if i < length xs then xs ! i else PyInt 1))))
   \<and> (\<not> isinstance_int other \<and> \<not> isinstance_list other \<and> \<not> isinstance_tuple other \<longrightarrow>
        Kernel blocks other prelude = Inl (ValueError ''threads must be an integer or a list of integers''))"
proof (intro conjI impI)
  show "\<exists>c. Kernel blocks (PyInt t) prelude = Inr c \<and> call_threads c = [PyInt t, PyInt 1, PyInt 1]"
    by (simp add: Kernel_threads_int isinstance_int_def)
next
  assume h: "length xs \<le> 3 \<and> (threads = PyList xs \<or> threads = PyTuple xs)"
  then have "Kernel blocks threads prelude =
     Inr \<lparr>call_blocks = blocks, call_threads = xs @ replicate (3 - length xs) (PyInt 1),
          call_attrs = (case prelude of None \<Rightarrow> [] | Some p \<Rightarrow> [(''pragma_import_c'', p)])\<rparr>"
    by (auto simp: Kernel_def isinstance_int_def)
  moreover from h have "length (xs @ replicate (3 - length xs) (PyInt 1)) = 3"
    by (simp only: padded)
  moreover from h have "\<forall>i<3. (xs @ replicate (3 - length xs) (PyInt 1)) ! i = (if i < length xs then xs ! i else PyInt 1)"
    by (simp add: padded_nth)
  ultimately show "\<exists>c. Kernel blocks threads prelude = Inr c
           \<and> call_threads c = xs @ replicate (3 - length xs) (PyInt 1)
           \<and> length (call_threads c) = 3
           \<and> (\<forall>i<3. call_threads c ! i = (if i < length xs then xs ! i else PyInt 1))"
    by simp
next
  assume "\<not> isinstance_int other \<and> \<not> isinstance_list other \<and> \<not> isinstance_tuple other"
  then show "Kernel blocks other prelude = Inl (ValueError ''threads must be an integer or a list of integers'')"
    by (cases other) (simp_all add: Kernel_def isinstance_int_def isinstance_list_def isinstance_tuple_def)
qed

text \<open>
  \<^verbatim>\<open>threads=128\<close>, \<^verbatim>\<open>threads=[64, 2]\<close>, \<^verbatim>\<open>threads=(64, 2)\<close> and
  \<^verbatim>\<open>threads="128"\<close>.
\<close>

theorem Kernel_normalizes_threads_witness:
  "(\<exists>c. Kernel [PyInt 8, PyInt 8] (PyInt 128) None = Inr c \<and> call_threads c = [PyInt 128, PyInt 1, PyInt 1])
   \<and> length [PyInt 64, PyInt 2] \<le> 3
   \<and> (\<exists>c. Kernel [PyInt 8, PyInt 4] (PyList [PyInt 64, PyInt 2]) None = Inr c
          \<and> call_threads c = [PyInt 64, PyInt 2, PyInt 1])
   \<and> (\<exists>c. Kernel [PyInt 8, PyInt 4] (PyTuple [PyInt 64, PyInt 2]) None = Inr c
          \<and> call_threads c = [PyInt 64, PyInt 2, PyInt 1])
   \<and> \<not> isinstance_int (PyStr ''128'') \<and> \<not> isinstance_list (PyStr ''128'') \<and> \<not> isinstance_tuple (PyStr ''128'')
   \<and> Kernel [PyInt 8] (PyStr ''128'') None = Inl (ValueError ''threads must be an integer or a list of integers'')"
proof -
  have l: "length [PyInt 64, PyInt 2] \<le> 3" by simp
  have n: "\<not> isinstance_int (PyStr ''128'') \<and> \<not> isinstance_list (PyStr ''128'') \<and> \<not> isinstance_tuple (PyStr ''128'')"
    by (simp add: isinstance_int_def isinstance_list_def isinstance_tuple_def)
  from Kernel_normalizes_threads [of "[PyInt 8, PyInt 8]" 128 None "[]" PyNone PyNone]
  have 1: "\<exists>c. Kernel [PyInt 8, PyInt 8] (PyInt 128) None = Inr c \<and> call_threads c = [PyInt 128, PyInt 1, PyInt 1]"
    by blast
  from l Kernel_normalizes_threads [of "[PyInt 8, PyInt 4]" 128 None "[PyInt 64, PyInt 2]" "PyList [PyInt 64, PyInt 2]" PyNone]
  have 2: "\<exists>c. Kernel [PyInt 8, PyInt 4] (PyList [PyInt 64, PyInt 2]) None = Inr c
          \<and> call_threads c = [PyInt 64, PyInt 2, PyInt 1]"
    by auto
  from l Kernel_normalizes_threads [of "[PyInt 8, PyInt 4]" 128 None "[PyInt 64, PyInt 2]" "PyTuple [PyInt 64, PyInt 2]" PyNone]
  have 3: "\<exists>c. Kernel [PyInt 8, PyInt 4] (PyTuple [PyInt 64, PyInt 2]) None = Inr c
          \<and> call_threads c = [PyInt 64, PyInt 2, PyInt 1]"
    by auto
  from n Kernel_normalizes_threads [of "[PyInt 8]" 128 None "[]" PyNone "PyStr ''128''"]
  have 4: "Kernel [PyInt 8] (PyStr ''128'') None = Inl (ValueError ''threads must be an integer or a list of integers'')"
    by blast
  from l n 1 2 3 4 show ?thesis by blast
qed

section \<open>Properties of the tensor supply\<close>

lemma get_tensor_dispatch:
  assumes "torch_getattribute lib (dtype tensor) = Inr dt"
    and "torch_cuda_current_device lib = Inr device"
    and "map_int (shape tensor) = Inr shp"
  shows "get_tensor supply_type lib tensor =
     (if dt = torch_int8 lib \<and> (supply_type = Member Uniform \<or> supply_type = Member Normal)
      then torch_ones lib shp device dt
      else case supply_type of
          Member Integer \<Rightarrow> torch_randint lib (- 2) 3 shp device dt
        | Member Uniform \<Rightarrow> torch_empty_uniform lib shp device dt (- 1) 1
        | Member Normal \<Rightarrow> torch_empty_normal lib shp device dt (- 1) 1
        | Member Randn \<Rightarrow> torch_randn_to lib shp device dt
        | Member Zero \<Rightarrow> torch_zeros lib shp device dt
        | Member One \<Rightarrow> torch_ones lib shp device dt
        | NonMember v \<Rightarrow> Inl (NotImplementedError (NonMember v)))"
  using assms by (simp add: get_tensor_def split: supply_arg.splits TensorSupplyType.splits)

text \<open>
  Claim C5, amended. For every tensor library, and every tensor description whose
  element type's name the library knows, with a current device and with constant
  dimensions (without one of these the generator raises before it chooses), the generator
  makes one call into the library and returns its tensor, or raises what the call
  raises: if the element type is \<^verbatim>\<open>torch.int8\<close>, the signed 8-bit integer type, and
  the distribution is Uniform or Normal, the call is \<^verbatim>\<open>torch.ones\<close>; for Integer it
  is \<^verbatim>\<open>torch.randint(low=-2, high=3)\<close>; for Zero and One it is \<^verbatim>\<open>torch.zeros\<close>
  and \<^verbatim>\<open>torch.ones\<close>. For a value that is no member of the enumeration the generator
  raises \<^verbatim>\<open>NotImplementedError\<close> with that value.
\<close>

theorem get_tensor_supply_generators:
  assumes "torch_getattribute lib (dtype tensor) = Inr dt"
    and "torch_cuda_current_device lib = Inr device"
    and "map_int (shape tensor) = Inr shp"
  shows "(dt = torch_int8 lib \<and> (distribution = Uniform \<or> distribution = Normal) \<longrightarrow>
            get_tensor_supply (Member distribution) lib tensor = torch_ones lib shp device dt)
     \<and> get_tensor_supply (Member Integer) lib tensor = torch_randint lib (- 2) 3 shp device dt
     \<and> get_tensor_supply (Member Zero) lib tensor = torch_zeros lib shp device dt
     \<and> get_tensor_supply (Member One) lib tensor = torch_ones lib shp device dt
     \<and> get_tensor_supply (NonMember v) lib tensor = Inl (NotImplementedError (NonMember v))"
  by (auto simp: get_tensor_supply_def get_tensor_dispatch [OF assms])

text \<open>
  A 4 by 4 tensor of \<^verbatim>\<open>int8\<close> on device 0 of the library above: ones for Normal, a
  draw from the integers from -2 up to but without 3 for Integer, zeros and ones for Zero
  and One.
\<close>

theorem get_tensor_supply_generators_witness:
  "torch_getattribute torch_lib (dtype int8_4x4) = Inr int8
   \<and> torch_cuda_current_device torch_lib = Inr 0
   \<and> map_int (shape int8_4x4) = Inr [4, 4]
   \<and> int8 = torch_int8 torch_lib
   \<and> get_tensor_supply (Member Normal) torch_lib int8_4x4 = Inr (all_ones [4, 4] 0 int8)
   \<and> get_tensor_supply (Member Integer) torch_lib int8_4x4 = Inr (drawn_randint (- 2) 3 [4, 4] 0 int8)
   \<and> get_tensor_supply (Member Zero) torch_lib int8_4x4 = Inr (all_zeros [4, 4] 0 int8)
   \<and> get_tensor_supply (Member One) torch_lib int8_4x4 = Inr (all_ones [4, 4] 0 int8)
   \<and> get_tensor_supply (NonMember (PyStr ''Gamma'')) torch_lib int8_4x4 =
        Inl (NotImplementedError (NonMember (PyStr ''Gamma'')))"
proof -
  have a: "torch_getattribute torch_lib (dtype int8_4x4) = Inr int8"
    by (simp add: int8_4x4_def torch_lib_def dtype_of_name_def)
  have d: "torch_cuda_current_device torch_lib = Inr 0"
    by (simp add: torch_lib_def)
  have b: "map_int (shape int8_4x4) = Inr [4, 4]"
    by (simp add: int8_4x4_def)
  have i: "int8 = torch_int8 torch_lib"
    by (simp add: torch_lib_def)
  have c: "torch_ones torch_lib [4, 4] 0 int8 = Inr (all_ones [4, 4] 0 int8)"
    "torch_zeros torch_lib [4, 4] 0 int8 = Inr (all_zeros [4, 4] 0 int8)"
    "torch_randint torch_lib (- 2) 3 [4, 4] 0 int8 = Inr (drawn_randint (- 2) 3 [4, 4] 0 int8)"
    by (simp_all add: torch_lib_def lib_fill_def splat_shape_def lib_randint_def int_range_def)
  from i c get_tensor_supply_generators [OF a d b, of Normal "PyStr ''Gamma''"]
  show ?thesis using a d b by simp
qed

text \<open>
  The claim as first stated speaks of every 8-bit integer type, and of every shape and
  element type. With the library above: for \<^verbatim>\<open>uint8\<close>, an 8-bit integer type, and
  Uniform the generator takes the Uniform branch, where \<^verbatim>\<open>uniform_\<close> raises, and
  returns no tensor of ones; for \<^verbatim>\<open>uint8\<close> and Integer \<^verbatim>\<open>randint\<close> raises, since
  the element type cannot hold -2; for a shape of no dimension and Zero or One
  \<^verbatim>\<open>zeros\<close> and \<^verbatim>\<open>ones\<close> raise, having been given no size; and for a value
  that is no distribution the generator raises what a lookup raises, when the library
  does not have the element type or a dimension is symbolic.
\<close>

theorem uint8_uniform_not_ones:
  "get_tensor_supply (Member Uniform) torch_lib uint8_4x4 =
     Inl (TorchError ''not implemented for this element type'')
   \<and> get_tensor_supply (Member Uniform) torch_lib uint8_4x4 \<noteq> torch_ones torch_lib [4, 4] 0 uint8
   \<and> torch_ones torch_lib [4, 4] 0 uint8 = Inr (all_ones [4, 4] 0 uint8)
   \<and> get_tensor_supply (Member Integer) torch_lib uint8_4x4 = Inl (TorchError ''bound out of range'')
   \<and> get_tensor_supply (Member Zero) torch_lib int8_scalar = Inl (TorchError ''no size given'')
   \<and> get_tensor_supply (Member One) torch_lib int8_scalar = Inl (TorchError ''no size given'')
   \<and> get_tensor_supply (NonMember (PyStr ''Gamma'')) torch_lib float8_4x4 =
        Inl (AttributeError ''e4m3_float8'')
   \<and> get_tensor_supply (NonMember (PyStr ''Gamma'')) torch_lib int8_nx4 = Inl (TypeError ''n'')"
  by (simp add: get_tensor_supply_def get_tensor_def uint8_4x4_def int8_scalar_def float8_4x4_def
      int8_nx4_def torch_lib_def dtype_of_name_def lib_fill_def splat_shape_def lib_randint_def
      int_range_def lib_empty_sample_def is_floating_point_def)

section \<open>Properties of the tensor comparison\<close>

subsection \<open>Rounding and the 8-bit integers\<close>
















subsection \<open>The comparison on tensors of the same shape\<close>
















section \<open>Properties of the configuration space\<close>

subsection \<open>The brute-force space\<close>

lemma product6_product:
  "product6 as bs cs ds es fs =
     List.product as (List.product bs (List.product cs (List.product ds (List.product es fs))))"
  by (simp add: product6_def product_concat_map map_concat o_def)

lemma set_product6:
  "set (product6 as bs cs ds es fs) = set as \<times> set bs \<times> set cs \<times> set ds \<times> set es \<times> set fs"
  by (simp add: product6_product)

lemma distinct_product6:
  "distinct as \<Longrightarrow> distinct bs \<Longrightarrow> distinct cs \<Longrightarrow> distinct ds \<Longrightarrow> distinct es \<Longrightarrow> distinct fs \<Longrightarrow>
   distinct (product6 as bs cs ds es fs)"
  by (simp add: product6_product distinct_product)

lemma length_product6:
  "length (product6 as bs cs ds es fs) =
     length as * (length bs * (length cs * (length ds * (length es * length fs))))"
  by (simp add: product6_product)

lemma inj_config_of_tuple: "inj config_of_tuple"
  by (rule injI) (auto simp: config_of_tuple_def split: prod.splits)

lemma config_of_tuple_image:
  "config_of_tuple ` (A \<times> B \<times> C \<times> D \<times> E \<times> F) =
     {c. block_M c \<in> A \<and> block_N c \<in> B \<and> block_K c \<in> C \<and> num_stages c \<in> D
         \<and> thread_num c \<in> E \<and> enable_rasteration c \<in> F}"
proof (intro set_eqI iffI)
  fix c :: config
  assume "c \<in> config_of_tuple ` (A \<times> B \<times> C \<times> D \<times> E \<times> F)"
  then show "c \<in> {c. block_M c \<in> A \<and> block_N c \<in> B \<and> block_K c \<in> C \<and> num_stages c \<in> D
         \<and> thread_num c \<in> E \<and> enable_rasteration c \<in> F}"
    by (auto simp: config_of_tuple_def)
next
  fix c :: config
  assume a: "c \<in> {c. block_M c \<in> A \<and> block_N c \<in> B \<and> block_K c \<in> C \<and> num_stages c \<in> D
         \<and> thread_num c \<in> E \<and> enable_rasteration c \<in> F}"
  have "c = config_of_tuple (block_M c, block_N c, block_K c, num_stages c, thread_num c, enable_rasteration c)"
    by (simp add: config_of_tuple_def)
  moreover from a have "(block_M c, block_N c, block_K c, num_stages c, thread_num c, enable_rasteration c)
      \<in> A \<times> B \<times> C \<times> D \<times> E \<times> F"
    by simp
  ultimately show "c \<in> config_of_tuple ` (A \<times> B \<times> C \<times> D \<times> E \<times> F)"
    by (rule image_eqI)
qed

text \<open>
  Claim C6. Without the roller, for every \<open>M\<close>, \<open>N\<close> and \<open>K\<close>, \<^verbatim>\<open>get_configs\<close>
  returns 288 configurations, no two of them equal, and they are exactly the
  configurations with \<^verbatim>\<open>block_M\<close> and \<^verbatim>\<open>block_N\<close> in \<open>{64, 128, 256}\<close>,
  \<^verbatim>\<open>block_K\<close> in \<open>{32, 64}\<close>, \<^verbatim>\<open>num_stages\<close> in \<open>{0, 1, 2, 3}\<close>,
  \<^verbatim>\<open>thread_num\<close> in \<open>{128, 256}\<close> and \<^verbatim>\<open>enable_rasteration\<close> true or false.
\<close>

theorem get_configs_brute_force:
  "\<exists>configs. get_configs lib M N K False = Inr configs
     \<and> length configs = 288
     \<and> distinct configs
     \<and> set configs =
         {c. block_M c \<in> {64, 128, 256} \<and> block_N c \<in> {64, 128, 256} \<and> block_K c \<in> {32, 64}
             \<and> num_stages c \<in> {0, 1, 2, 3} \<and> thread_num c \<in> {128, 256}
             \<and> enable_rasteration c \<in> {True, False}}"
proof -
  let ?p = "product6 [64, 128, 256::int] [64, 128, 256::int] [32, 64::int] [0, 1, 2, 3::int] [128, 256::int] [True, False]"
  have g: "get_configs lib M N K False = Inr (map config_of_tuple ?p)"
    by (simp add: get_configs_def Let_def)
  have l: "length (map config_of_tuple ?p) = 288"
    by (simp add: length_product6)
  have "distinct ?p"
    by (rule distinct_product6) simp_all
  then have d: "distinct (map config_of_tuple ?p)"
    by (simp only: distinct_map inj_on_subset [OF inj_config_of_tuple subset_UNIV])
  have "set (map config_of_tuple ?p) =
          config_of_tuple ` (set [64, 128, 256] \<times> set [64, 128, 256] \<times> set [32, 64] \<times> set [0, 1, 2, 3]
             \<times> set [128, 256] \<times> set [True, False])"
    by (simp only: set_map set_product6)
  also have "\<dots> = {c. block_M c \<in> set [64, 128, 256] \<and> block_N c \<in> set [64, 128, 256] \<and> block_K c \<in> set [32, 64]
             \<and> num_stages c \<in> set [0, 1, 2, 3] \<and> thread_num c \<in> set [128, 256]
             \<and> enable_rasteration c \<in> set [True, False]}"
    by (rule config_of_tuple_image)
  finally have s: "set (map config_of_tuple ?p) =
         {c. block_M c \<in> {64, 128, 256} \<and> block_N c \<in> {64, 128, 256} \<and> block_K c \<in> {32, 64}
             \<and> num_stages c \<in> {0, 1, 2, 3} \<and> thread_num c \<in> {128, 256}
             \<and> enable_rasteration c \<in> {True, False}}"
    by simp
  from g l d s show ?thesis by blast
qed

subsection \<open>The space derived from hints\<close>

lemma unpack2_pair: "length xs = 2 \<Longrightarrow> unpack2 xs = Inr (xs ! 0, xs ! 1)"
proof -
  assume "length xs = 2"
  then obtain a b where "xs = [a, b]"
    by (cases xs; cases "tl xs") auto
  then show ?thesis by (simp add: unpack2_def)
qed

lemma config_of_hint_well_formed:
  assumes "length (block h) = 2" and "length (warp h) = 2" and "rstep h \<noteq> []"
    and "warp h ! 0 * warp h ! 1 \<noteq> 0"
  shows "config_of_hint h =
     Inr \<lparr>block_M = block h ! 0, block_N = block h ! 1, block_K = rstep h ! 0, num_stages = 0,
          thread_num = (block h ! 0 * block h ! 1) div (warp h ! 0 * warp h ! 1) * 32,
          enable_rasteration = (rasterization_plan h \<noteq> NoRasterization)\<rparr>"
proof -
  from assms(3) obtain r0 rs where "rstep h = r0 # rs" by (cases "rstep h") auto
  with assms(4) unpack2_pair [OF assms(1)] unpack2_pair [OF assms(2)] show ?thesis
    by (simp add: config_of_hint_def)
qed

lemma roller_loop_well_formed:
  "(\<And>h. h \<in> set hs \<Longrightarrow> config_of_hint h = Inr (g h)) \<Longrightarrow>
   roller_loop hs configs = Inr (configs @ map g hs)"
  by (induction hs arbitrary: configs) simp_all

text \<open>
  With the roller, when the search returns hints whose block and warp shapes are pairs,
  whose reduction steps are not empty and whose warp shape is not zero, \<^verbatim>\<open>get_configs\<close>
  returns one configuration for each hint, in order, with \<^verbatim>\<open>block_M\<close> and
  \<^verbatim>\<open>block_N\<close> the hint's block shape, \<^verbatim>\<open>block_K\<close> its first reduction step,
  \<^verbatim>\<open>num_stages\<close> 0, and \<^verbatim>\<open>thread_num\<close> the floor quotient of \<open>block_M * block_N\<close>
  by \<open>warp_M * warp_N\<close> times 32. \<^verbatim>\<open>enable_rasteration\<close> is what the identity test
  gives, which is true for every instance of a plan class.
\<close>

lemma get_configs_roller_fields:
  assumes "get_roller_hints_from_func M N K = Some roller_hints"
    and "\<forall>h \<in> set roller_hints. length (block h) = 2 \<and> length (warp h) = 2 \<and> rstep h \<noteq> []
            \<and> warp h ! 0 * warp h ! 1 \<noteq> 0"
  shows "\<exists>configs. get_configs (Installed get_roller_hints_from_func) M N K True = Inr configs
     \<and> length configs = length roller_hints
     \<and> (\<forall>i < length roller_hints.
          block_M (configs ! i) = block (roller_hints ! i) ! 0
        \<and> block_N (configs ! i) = block (roller_hints ! i) ! 1
        \<and> block_K (configs ! i) = rstep (roller_hints ! i) ! 0
        \<and> num_stages (configs ! i) = 0
        \<and> thread_num (configs ! i) =
            (block_M (configs ! i) * block_N (configs ! i))
              div (warp (roller_hints ! i) ! 0 * warp (roller_hints ! i) ! 1) * 32
        \<and> (enable_rasteration (configs ! i) \<longleftrightarrow> rasterization_plan (roller_hints ! i) \<noteq> NoRasterization)
        \<and> ((\<exists>cls k. rasterization_plan (roller_hints ! i) = PlanInstance cls k) \<longrightarrow>
              enable_rasteration (configs ! i)))"
proof -
  let ?g = "\<lambda>h. \<lparr>block_M = block h ! 0, block_N = block h ! 1, block_K = rstep h ! 0, num_stages = 0,
          thread_num = (block h ! 0 * block h ! 1) div (warp h ! 0 * warp h ! 1) * 32,
          enable_rasteration = (rasterization_plan h \<noteq> NoRasterization)\<rparr>"
  have "\<And>h. h \<in> set roller_hints \<Longrightarrow> config_of_hint h = Inr (?g h)"
    using assms(2) by (simp add: config_of_hint_well_formed)
  then have "roller_loop roller_hints [] = Inr ([] @ map ?g roller_hints)"
    by (rule roller_loop_well_formed)
  with assms(1) have "get_configs (Installed get_roller_hints_from_func) M N K True = Inr (map ?g roller_hints)"
    by (simp add: get_configs_def)
  then show ?thesis by (auto simp: NoRasterization_def)
qed

text \<open>
  Claim C8. The claim has \<^verbatim>\<open>enable_rasteration\<close> true exactly for a hint with a
  plan that is not the default one. The code compares the hint's plan, an instance, with
  the class \<^verbatim>\<open>NoRasterization\<close> by identity, so the test is true for every hint: for
  the hint with the default plan, an instance of \<^verbatim>\<open>NoRasterization\<close>,
  \<^verbatim>\<open>get_configs\<close> returns \<^verbatim>\<open>enable_rasteration\<close> true, as it does for the hint
  with another plan. The other fields are as the claim has them.
\<close>

theorem default_plan_enables_rasteration:
  "is_default_plan (rasterization_plan hint_128_64)
   \<and> \<not> is_default_plan (rasterization_plan hint_256_128)
   \<and> get_configs (Installed two_hints) 1024 1024 512 True =
       Inr [\<lparr>block_M = 128, block_N = 64, block_K = 32, num_stages = 0, thread_num = 128,
             enable_rasteration = True\<rparr>,
            \<lparr>block_M = 256, block_N = 128, block_K = 64, num_stages = 0, thread_num = 256,
             enable_rasteration = True\<rparr>]"
  by (simp add: is_default_plan_def hint_128_64_def hint_256_128_def two_hints_def get_configs_def
      config_of_hint_def unpack2_def NoRasterization_def)

end
